theory Spec2Isabelle
  imports Complex_Main "HOL-Library.Word"
begin

unbundle bit_operations_syntax

section \<open>The editor camera of \<^verbatim>\<open>src/Camera/EditorCamera.h\<close>\<close>

subsection \<open>Numbers\<close>

text \<open>
  Every \<^verbatim>\<open>float\<close> of the source is a value of \<open>flt\<close>: a finite number, held as an exact
  real, or \<open>NaN\<close>. \<open>NaN\<close> stands for every result that is not a finite number: in exact
  arithmetic such a result comes from a division by zero, from \<^verbatim>\<open>asin\<close> outside \<open>[-1, 1]\<close>,
  from \<^verbatim>\<open>tan\<close> at a pole and from \<^verbatim>\<open>sqrt\<close> of a negative number. It is absorbing: an
  operation with a \<open>NaN\<close> argument gives \<open>NaN\<close>, and a comparison with a \<open>NaN\<close> argument is
  false, as in the code.

  This is an idealisation of binary32, and three things of the code are outside it: the
  rounding of every operation, the overflow of a large result to an infinity, and the negative
  zero. A property that one of the three decides (whether a sum of products is exactly a given
  number, whether a cosine is exactly zero, whether a difference of two large numbers is still
  finite) is not a property of this model. What the model keeps is the structure of every
  expression, the comparisons, which are exact on the numbers of the code, and the way a NaN
  spreads through the operations.
\<close>

datatype flt = Fin real | NaN

instantiation flt :: "{plus, minus, uminus, times, divide, ord}"
begin

fun plus_flt :: "flt \<Rightarrow> flt \<Rightarrow> flt" where
  "plus_flt (Fin a) (Fin b) = Fin (a + b)"
| "plus_flt _ _ = NaN"

fun minus_flt :: "flt \<Rightarrow> flt \<Rightarrow> flt" where
  "minus_flt (Fin a) (Fin b) = Fin (a - b)"
| "minus_flt _ _ = NaN"

fun uminus_flt :: "flt \<Rightarrow> flt" where
  "uminus_flt (Fin a) = Fin (- a)"
| "uminus_flt NaN = NaN"

fun times_flt :: "flt \<Rightarrow> flt \<Rightarrow> flt" where
  "times_flt (Fin a) (Fin b) = Fin (a * b)"
| "times_flt _ _ = NaN"

fun divide_flt :: "flt \<Rightarrow> flt \<Rightarrow> flt" where
  "divide_flt (Fin a) (Fin b) = (if b = 0 then NaN else Fin (a / b))"
| "divide_flt _ _ = NaN"

fun less_flt :: "flt \<Rightarrow> flt \<Rightarrow> bool" where
  "less_flt (Fin a) (Fin b) = (a < b)"
| "less_flt _ _ = False"

fun less_eq_flt :: "flt \<Rightarrow> flt \<Rightarrow> bool" where
  "less_eq_flt (Fin a) (Fin b) = (a \<le> b)"
| "less_eq_flt _ _ = False"

instance ..

end

instantiation flt :: inverse
begin

definition inverse_flt :: "flt \<Rightarrow> flt" where
  "inverse_flt a = Fin 1 div a"

instance ..

end

text \<open>The functions of \<^verbatim>\<open><cmath>\<close> that the camera calls, on finite reals and \<open>NaN\<close>.\<close>

fun sin_f :: "flt \<Rightarrow> flt" where
  "sin_f (Fin a) = Fin (sin a)"
| "sin_f NaN = NaN"

fun cos_f :: "flt \<Rightarrow> flt" where
  "cos_f (Fin a) = Fin (cos a)"
| "cos_f NaN = NaN"

fun tan_f :: "flt \<Rightarrow> flt" where
  "tan_f (Fin a) = (if cos a = 0 then NaN else Fin (tan a))"
| "tan_f NaN = NaN"

fun sqrt_f :: "flt \<Rightarrow> flt" where
  "sqrt_f (Fin a) = (if a < 0 then NaN else Fin (sqrt a))"
| "sqrt_f NaN = NaN"

fun asin_f :: "flt \<Rightarrow> flt" where
  "asin_f (Fin a) = (if - 1 \<le> a \<and> a \<le> 1 then Fin (arcsin a) else NaN)"
| "asin_f NaN = NaN"

text \<open>
  \<^verbatim>\<open>atan2(y, x)\<close>: the angle of the point \<open>(x, y)\<close> in \<open>(-\<pi>, \<pi>]\<close>, and 0 at the origin
  (the reals have one zero, the positive one of the code).
\<close>

definition atan2_real :: "real \<Rightarrow> real \<Rightarrow> real" where
  "atan2_real y x =
     (if 0 < x then arctan (y / x)
      else if x < 0 \<and> 0 \<le> y then arctan (y / x) + pi
      else if x < 0 \<and> y < 0 then arctan (y / x) - pi
      else if 0 < y then pi / 2
      else if y < 0 then - (pi / 2)
      else 0)"

fun atan2_f :: "flt \<Rightarrow> flt \<Rightarrow> flt" where
  "atan2_f (Fin y) (Fin x) = Fin (atan2_real y x)"
| "atan2_f _ _ = NaN"

subsection \<open>The part of GLM that the camera uses\<close>

text \<open>
  GLM is a library outside \<^verbatim>\<open>src/\<close>. Its vectors are datatypes of their components and its
  matrices datatypes of their columns (\<^verbatim>\<open>m[i]\<close> is column \<open>i\<close>, \<^verbatim>\<open>m[i][j]\<close> its row \<open>j\<close>).
\<close>

datatype vec2 = Vec2 (v2x: flt) (v2y: flt)

datatype vec3 = Vec3 (vx: flt) (vy: flt) (vz: flt)

datatype vec4 = Vec4 flt flt flt flt

datatype mat3 = Mat3 (col0: vec3) (col1: vec3) (col2: vec3)

datatype mat4 = Mat4 vec4 vec4 vec4 vec4

instantiation vec3 :: "{plus, minus}"
begin

fun plus_vec3 :: "vec3 \<Rightarrow> vec3 \<Rightarrow> vec3" where
  "plus_vec3 (Vec3 a b c) (Vec3 a' b' c') = Vec3 (a + a') (b + b') (c + c')"

fun minus_vec3 :: "vec3 \<Rightarrow> vec3 \<Rightarrow> vec3" where
  "minus_vec3 (Vec3 a b c) (Vec3 a' b' c') = Vec3 (a - a') (b - b') (c - c')"

instance ..

end

text \<open>\<^verbatim>\<open>v * s\<close>, a vector times a scalar.\<close>

fun scale :: "vec3 \<Rightarrow> flt \<Rightarrow> vec3" where
  "scale (Vec3 a b c) s = Vec3 (a * s) (b * s) (c * s)"

text \<open>\<^verbatim>\<open>glm::mat4(1.0f)\<close>\<close>

definition mat4_identity :: mat4 where
  "mat4_identity =
     Mat4 (Vec4 (Fin 1) (Fin 0) (Fin 0) (Fin 0)) (Vec4 (Fin 0) (Fin 1) (Fin 0) (Fin 0))
          (Vec4 (Fin 0) (Fin 0) (Fin 1) (Fin 0)) (Vec4 (Fin 0) (Fin 0) (Fin 0) (Fin 1))"

text \<open>
  Modelled from the spec: \<^verbatim>\<open>glm::radians\<close> and \<^verbatim>\<open>glm::degrees\<close> are not under \<^verbatim>\<open>src/\<close>. The
  spec keeps the angles in degrees and the trigonometry in radians; GLM multiplies by the
  decimal expansions of \<open>\<pi> / 180\<close> and \<open>180 / \<pi>\<close>, taken here as exact.
\<close>

definition radians :: "flt \<Rightarrow> flt" where
  "radians d = d * Fin (pi / 180)"

definition degrees :: "flt \<Rightarrow> flt" where
  "degrees r = r * Fin (180 / pi)"

text \<open>
  Modelled from the spec: \<^verbatim>\<open>glm::dot\<close>, \<^verbatim>\<open>glm::cross\<close>, \<^verbatim>\<open>glm::inversesqrt\<close> and
  \<^verbatim>\<open>glm::normalize\<close> are not under \<^verbatim>\<open>src/\<close>. They are the spec's dot product, its \<open>\<times>\<close> and
  its \<open>normalize\<close>, written as GLM computes them: \<open>normalize v\<close> is \<open>v\<close> times the inverse
  square root of \<open>dot v v\<close>, so the zero vector gives three times \<open>NaN\<close>.
\<close>

fun dot :: "vec3 \<Rightarrow> vec3 \<Rightarrow> flt" where
  "dot (Vec3 a b c) (Vec3 a' b' c') = a * a' + b * b' + c * c'"

fun cross :: "vec3 \<Rightarrow> vec3 \<Rightarrow> vec3" where
  "cross (Vec3 a b c) (Vec3 a' b' c') =
     Vec3 (b * c' - b' * c) (c * a' - c' * a) (a * b' - a' * b)"

definition inversesqrt :: "flt \<Rightarrow> flt" where
  "inversesqrt a = Fin 1 / sqrt_f a"

definition normalize_v :: "vec3 \<Rightarrow> vec3" where
  "normalize_v v = scale v (inversesqrt (dot v v))"

text \<open>
  Modelled from the spec: \<^verbatim>\<open>glm::lookAt\<close> is not under \<^verbatim>\<open>src/\<close>. It is the spec's look-at
  construction from eye position, target point and up vector, in GLM's default right-handed
  form: the rows of the rotation part are the side, up and negated view directions.
\<close>

definition lookAt :: "vec3 \<Rightarrow> vec3 \<Rightarrow> vec3 \<Rightarrow> mat4" where
  "lookAt eye center up =
     (let f = normalize_v (center - eye);
          s = normalize_v (cross f up);
          u = cross s f
      in Mat4 (Vec4 (vx s) (vx u) (- vx f) (Fin 0))
              (Vec4 (vy s) (vy u) (- vy f) (Fin 0))
              (Vec4 (vz s) (vz u) (- vz f) (Fin 0))
              (Vec4 (- dot s eye) (- dot u eye) (dot f eye) (Fin 1)))"

text \<open>
  Modelled from the spec: \<^verbatim>\<open>glm::perspective\<close> is not under \<^verbatim>\<open>src/\<close>. It is the spec's
  standard symmetric perspective frustum from vertical field of view in radians, aspect ratio,
  near and far clip, in GLM's default form (right-handed, depth from \<open>-1\<close> to \<open>1\<close>). The
  debug assertion of GLM on the aspect ratio is left out.
\<close>

definition perspective :: "flt \<Rightarrow> flt \<Rightarrow> flt \<Rightarrow> flt \<Rightarrow> mat4" where
  "perspective fovy aspect zNear zFar =
     (let tanHalfFovy = tan_f (fovy / Fin 2)
      in Mat4 (Vec4 (Fin 1 / (aspect * tanHalfFovy)) (Fin 0) (Fin 0) (Fin 0))
              (Vec4 (Fin 0) (Fin 1 / tanHalfFovy) (Fin 0) (Fin 0))
              (Vec4 (Fin 0) (Fin 0) (- (zFar + zNear) / (zFar - zNear)) (- Fin 1))
              (Vec4 (Fin 0) (Fin 0) (- (Fin 2 * zFar * zNear) / (zFar - zNear)) (Fin 0)))"

subsection \<open>Movement flags\<close>

datatype CameraMovement = Forward | Backward | Left | Right | Up | Down

text \<open>\<^verbatim>\<open>static_cast<uint32_t>(movement)\<close>: the enumerator \<^verbatim>\<open>1 << k\<close>.\<close>

fun movement_bits :: "CameraMovement \<Rightarrow> 32 word" where
  "movement_bits Forward = push_bit 0 1"
| "movement_bits Backward = push_bit 1 1"
| "movement_bits Left = push_bit 2 1"
| "movement_bits Right = push_bit 3 1"
| "movement_bits Up = push_bit 4 1"
| "movement_bits Down = push_bit 5 1"

text \<open>A \<^verbatim>\<open>CameraMovementFlags\<close> is its only member, \<^verbatim>\<open>mFlags\<close>.\<close>

type_synonym CameraMovementFlags = "32 word"

definition NoFlags :: CameraMovementFlags where
  "NoFlags = 0"

definition FlagsOf :: "CameraMovement \<Rightarrow> CameraMovementFlags" where
  "FlagsOf movement = movement_bits movement"

definition SetFlag :: "CameraMovement \<Rightarrow> CameraMovementFlags \<Rightarrow> CameraMovementFlags" where
  "SetFlag movement mFlags = mFlags OR movement_bits movement"

definition ClearFlag :: "CameraMovement \<Rightarrow> CameraMovementFlags \<Rightarrow> CameraMovementFlags" where
  "ClearFlag movement mFlags = mFlags AND NOT (movement_bits movement)"

definition HasFlag :: "CameraMovementFlags \<Rightarrow> CameraMovement \<Rightarrow> bool" where
  "HasFlag mFlags movement = (mFlags AND movement_bits movement \<noteq> 0)"

definition ClearAll :: "CameraMovementFlags \<Rightarrow> CameraMovementFlags" where
  "ClearAll mFlags = 0"

subsection \<open>The camera\<close>

record EditorCameraSpecs =
  Fov :: flt
  NearClip :: flt
  FarClip :: flt
  AspectRatio :: flt

text \<open>The default member initialisers of \<^verbatim>\<open>EditorCameraSpecs\<close>.\<close>

definition default_specs :: EditorCameraSpecs where
  "default_specs =
     \<lparr>Fov = radians (Fin 45), NearClip = Fin (1 / 10), FarClip = Fin 100,
      AspectRatio = Fin 16 / Fin 9\<rparr>"

record EditorCamera =
  mCameraSpecs :: EditorCameraSpecs
  mPosition :: vec3
  mForwardDirection :: vec3
  mRightDirection :: vec3
  mUpDirection :: vec3
  mYaw :: flt
  mPitch :: flt
  mRoll :: flt
  mMoveSpeed :: flt
  mRotationSpeed :: flt
  mLastMouseX :: flt
  mLastMouseY :: flt
  mView :: mat4
  mProjection :: mat4

text \<open>The default member initialisers of \<^verbatim>\<open>EditorCamera\<close>, before the constructor's body.\<close>

definition initial_members :: EditorCamera where
  "initial_members =
     \<lparr>mCameraSpecs = default_specs,
      mPosition = Vec3 (Fin 0) (Fin 0) (Fin 5),
      mForwardDirection = Vec3 (Fin 0) (Fin 0) (Fin (- 1)),
      mRightDirection = Vec3 (Fin 1) (Fin 0) (Fin 0),
      mUpDirection = Vec3 (Fin 0) (Fin 1) (Fin 0),
      mYaw = Fin (- 90), mPitch = Fin 0, mRoll = Fin 0,
      mMoveSpeed = Fin 5, mRotationSpeed = Fin (1 / 10),
      mLastMouseX = Fin 0, mLastMouseY = Fin 0,
      mView = mat4_identity, mProjection = mat4_identity\<rparr>"

definition NanoSecondsTicksInOneSecond :: flt where
  "NanoSecondsTicksInOneSecond = Fin 1000000000"

definition UpdateProjection :: "EditorCamera \<Rightarrow> EditorCamera" where
  "UpdateProjection c =
     c\<lparr>mProjection :=
         perspective (radians (Fov (mCameraSpecs c))) (AspectRatio (mCameraSpecs c))
           (NearClip (mCameraSpecs c)) (FarClip (mCameraSpecs c))\<rparr>"

definition UpdateView :: "EditorCamera \<Rightarrow> EditorCamera" where
  "UpdateView c =
     (let c1 = c\<lparr>mForwardDirection := normalize_v (Vec3
                  (cos_f (radians (mYaw c)) * cos_f (radians (mPitch c)))
                  (sin_f (radians (mPitch c)))
                  (sin_f (radians (mYaw c)) * cos_f (radians (mPitch c))))\<rparr>;
          c2 = c1\<lparr>mRightDirection :=
                  normalize_v (cross (mForwardDirection c1) (Vec3 (Fin 0) (Fin 1) (Fin 0)))\<rparr>;
          c3 = c2\<lparr>mUpDirection :=
                  normalize_v (cross (mRightDirection c2) (mForwardDirection c2))\<rparr>
      in c3\<lparr>mView := lookAt (mPosition c3) (mPosition c3 + mForwardDirection c3)
                         (mUpDirection c3)\<rparr>)"

text \<open>The constructor: the default members, then its body.\<close>

definition EditorCamera_new :: EditorCamera where
  "EditorCamera_new = UpdateView (UpdateProjection initial_members)"

definition SetCameraSpec :: "EditorCameraSpecs \<Rightarrow> EditorCamera \<Rightarrow> EditorCamera" where
  "SetCameraSpec specs c = UpdateProjection (c\<lparr>mCameraSpecs := specs\<rparr>)"

definition SetPosition :: "vec3 \<Rightarrow> EditorCamera \<Rightarrow> EditorCamera" where
  "SetPosition position c = UpdateView (c\<lparr>mPosition := position\<rparr>)"

definition SetOrientation :: "mat3 \<Rightarrow> EditorCamera \<Rightarrow> EditorCamera" where
  "SetOrientation orientation c =
     UpdateView (c\<lparr>mForwardDirection := normalize_v (col2 orientation),
                   mRightDirection := normalize_v (col0 orientation),
                   mUpDirection := normalize_v (col1 orientation),
                   mYaw := degrees (atan2_f (vx (col2 orientation)) (vz (col2 orientation))),
                   mPitch := degrees (asin_f (- vy (col2 orientation))),
                   mRoll := degrees (atan2_f (vy (col0 orientation)) (vy (col1 orientation)))\<rparr>)"

definition SetLinearSpeed :: "flt \<Rightarrow> EditorCamera \<Rightarrow> EditorCamera" where
  "SetLinearSpeed speed c = c\<lparr>mMoveSpeed := speed\<rparr>"

definition SetRotationSpeed :: "flt \<Rightarrow> EditorCamera \<Rightarrow> EditorCamera" where
  "SetRotationSpeed speed c = c\<lparr>mRotationSpeed := speed\<rparr>"

text \<open>
  The movement vector of \<^verbatim>\<open>OnUpdate\<close>, its six conditional statements in the source's order.
\<close>

definition movement_of :: "CameraMovementFlags \<Rightarrow> flt \<Rightarrow> EditorCamera \<Rightarrow> vec3" where
  "movement_of movementFlags speed c =
     (let m0 = Vec3 (Fin 0) (Fin 0) (Fin 0);
          m1 = (if HasFlag movementFlags Forward then m0 + scale (mForwardDirection c) speed else m0);
          m2 = (if HasFlag movementFlags Backward then m1 - scale (mForwardDirection c) speed else m1);
          m3 = (if HasFlag movementFlags Left then m2 - scale (mRightDirection c) speed else m2);
          m4 = (if HasFlag movementFlags Right then m3 + scale (mRightDirection c) speed else m3);
          m5 = (if HasFlag movementFlags Up then m4 + scale (mUpDirection c) speed else m4)
      in if HasFlag movementFlags Down then m5 - scale (mUpDirection c) speed else m5)"

text \<open>
  \<^verbatim>\<open>OnUpdate\<close>. \<open>deltaTime\<close> is the signed 64-bit tick count of the \<^verbatim>\<open>std::chrono::nanoseconds\<close>,
  and \<open>rot\<close> the parameter \<^verbatim>\<open>rotate\<close>.
\<close>

definition OnUpdate ::
  "64 word \<Rightarrow> CameraMovementFlags \<Rightarrow> vec2 \<Rightarrow> bool \<Rightarrow> EditorCamera \<Rightarrow> EditorCamera" where
  "OnUpdate deltaTime movementFlags mousePos rot c =
     (let dt = Fin (real_of_int (sint deltaTime)) / NanoSecondsTicksInOneSecond;
          speed = mMoveSpeed c * dt;
          c1 = c\<lparr>mPosition := mPosition c + movement_of movementFlags speed c\<rparr>
      in if rot then
           (let dx = v2x mousePos - mLastMouseX c1;
                dy = v2y mousePos - mLastMouseY c1;
                c2 = c1\<lparr>mYaw := mYaw c1 + dx * mRotationSpeed c1\<rparr>;
                c3 = c2\<lparr>mPitch := mPitch c2 - dy * mRotationSpeed c2\<rparr>;
                c4 = (if Fin 89 < mPitch c3 then c3\<lparr>mPitch := Fin 89\<rparr> else c3);
                c5 = (if mPitch c4 < Fin (- 89) then c4\<lparr>mPitch := Fin (- 89)\<rparr> else c4);
                c6 = c5\<lparr>mLastMouseX := v2x mousePos, mLastMouseY := v2y mousePos\<rparr>
            in UpdateView c6)
         else c1)"

subsection \<open>Notions of the specification\<close>

text \<open>
  The specification's movement vector: the sum, over the active flags, of plus or minus a
  direction of the camera scaled by \<open>s\<close>. \<open>flag_terms\<close> lists, for each flag, whether it adds
  and which direction it uses; \<open>flag_sum\<close> adds the terms of the active flags up.
\<close>

definition flag_terms :: "(CameraMovement \<times> bool \<times> (EditorCamera \<Rightarrow> vec3)) list" where
  "flag_terms =
     [(Forward, True, mForwardDirection), (Backward, False, mForwardDirection),
      (Left, False, mRightDirection), (Right, True, mRightDirection),
      (Up, True, mUpDirection), (Down, False, mUpDirection)]"

fun flag_sum :: "CameraMovementFlags \<Rightarrow> flt \<Rightarrow> EditorCamera \<Rightarrow> vec3 \<Rightarrow>
    (CameraMovement \<times> bool \<times> (EditorCamera \<Rightarrow> vec3)) list \<Rightarrow> vec3" where
  "flag_sum fl s c acc [] = acc"
| "flag_sum fl s c acc ((m, adds, dir) # ts) =
     flag_sum fl s c
       (if HasFlag fl m then (if adds then acc + scale (dir c) s else acc - scale (dir c) s)
        else acc) ts"

text \<open>
  The specification's scenario: the default-constructed camera after one second of \<open>Forward\<close>
  with the mouse at the origin and rotation off.
\<close>

definition moved_camera :: EditorCamera where
  "moved_camera =
     OnUpdate 1000000000 (FlagsOf Forward) (Vec2 (Fin 0) (Fin 0)) False EditorCamera_new"

text \<open>
  The camera's own basis as a matrix for \<^verbatim>\<open>SetOrientation\<close>, whose columns are right, up
  and forward in this order.
\<close>

definition basis_of :: "EditorCamera \<Rightarrow> mat3" where
  "basis_of c = Mat3 (mRightDirection c) (mUpDirection c) (mForwardDirection c)"

text \<open>Two rotations, about the x axis by a quarter turn: the z column is straight down, or up.\<close>

definition basis_z_down :: mat3 where
  "basis_z_down = Mat3 (Vec3 (Fin 1) (Fin 0) (Fin 0)) (Vec3 (Fin 0) (Fin 0) (Fin 1))
     (Vec3 (Fin 0) (Fin (- 1)) (Fin 0))"

definition basis_z_up :: mat3 where
  "basis_z_up = Mat3 (Vec3 (Fin 1) (Fin 0) (Fin 0)) (Vec3 (Fin 0) (Fin 0) (Fin (- 1)))
     (Vec3 (Fin 0) (Fin 1) (Fin 0))"

text \<open>The specification's range of the pitch, in degrees.\<close>

definition pitch_in_range :: "flt \<Rightarrow> bool" where
  "pitch_in_range p = (Fin (- 89) \<le> p \<and> p \<le> Fin 89)"

text \<open>
  The specification's P1: forward, right and up are pairwise orthogonal and of length one
  (a vector has length one exactly when its dot product with itself is one).
\<close>

definition orthonormal :: "EditorCamera \<Rightarrow> bool" where
  "orthonormal c =
     (dot (mForwardDirection c) (mRightDirection c) = Fin 0 \<and>
      dot (mForwardDirection c) (mUpDirection c) = Fin 0 \<and>
      dot (mRightDirection c) (mUpDirection c) = Fin 0 \<and>
      dot (mForwardDirection c) (mForwardDirection c) = Fin 1 \<and>
      dot (mRightDirection c) (mRightDirection c) = Fin 1 \<and>
      dot (mUpDirection c) (mUpDirection c) = Fin 1)"

text \<open>
  A basis with the columns of \<open>basis_z_down\<close> scaled by two: orthogonal columns that are not
  unit vectors.
\<close>

definition basis_scaled :: mat3 where
  "basis_scaled = Mat3 (Vec3 (Fin 2) (Fin 0) (Fin 0)) (Vec3 (Fin 0) (Fin 0) (Fin 2))
     (Vec3 (Fin 0) (Fin (- 2)) (Fin 0))"

text \<open>
  The basis \<open>basis_z_down\<close> with a z column that is too long by the least amount binary32 can
  tell: its y entry is \<open>-(1 + 2\<^sup>-\<^sup>2\<^sup>3)\<close>, the float next to \<open>-1\<close>.
\<close>

definition basis_long :: mat3 where
  "basis_long = Mat3 (Vec3 (Fin 1) (Fin 0) (Fin 0)) (Vec3 (Fin 0) (Fin 0) (Fin 1))
     (Vec3 (Fin 0) (Fin (- (8388609 / 8388608))) (Fin 0))"

text \<open>
  What a view recompute establishes: the basis is the one derived from yaw and pitch, and
  the view matrix is the look-at matrix of the position and this basis.
\<close>

definition view_recomputed :: "EditorCamera \<Rightarrow> bool" where
  "view_recomputed c =
     (mForwardDirection c = normalize_v (Vec3
          (cos_f (radians (mYaw c)) * cos_f (radians (mPitch c)))
          (sin_f (radians (mPitch c)))
          (sin_f (radians (mYaw c)) * cos_f (radians (mPitch c)))) \<and>
      mRightDirection c =
        normalize_v (cross (mForwardDirection c) (Vec3 (Fin 0) (Fin 1) (Fin 0))) \<and>
      mUpDirection c = normalize_v (cross (mRightDirection c) (mForwardDirection c)) \<and>
      mView c = lookAt (mPosition c) (mPosition c + mForwardDirection c) (mUpDirection c))"

text \<open>A float that is a finite number.\<close>

fun is_finite :: "flt \<Rightarrow> bool" where
  "is_finite (Fin a) = True"
| "is_finite NaN = False"

text \<open>The specification's clamp of the pitch to \<open>[-89, 89]\<close> degrees.\<close>

definition clamp_pitch :: "flt \<Rightarrow> flt" where
  "clamp_pitch p = (if Fin 89 < p then Fin 89 else if p < Fin (- 89) then Fin (- 89) else p)"

text \<open>
  The pitch that a rotating \<^verbatim>\<open>OnUpdate\<close> computes from the mouse position, before the clamp.
\<close>

definition raw_pitch :: "EditorCamera \<Rightarrow> vec2 \<Rightarrow> flt" where
  "raw_pitch c mp = mPitch c - (v2y mp - mLastMouseY c) * mRotationSpeed c"

section \<open>Properties\<close>

subsection \<open>Evaluation at concrete inputs\<close>

lemma radians_m90: "radians (Fin (- 90)) = Fin (- (pi / 2))"
  by (simp add: radians_def)

lemma radians_0: "radians (Fin 0) = Fin 0"
  by (simp add: radians_def)

lemma HasFlag_Forward:
  "HasFlag (FlagsOf Forward) Forward" "\<not> HasFlag (FlagsOf Forward) Backward"
  "\<not> HasFlag (FlagsOf Forward) Left" "\<not> HasFlag (FlagsOf Forward) Right"
  "\<not> HasFlag (FlagsOf Forward) Up" "\<not> HasFlag (FlagsOf Forward) Down"
  by (simp_all add: HasFlag_def FlagsOf_def)

subsection \<open>What the view recompute leaves alone\<close>

lemma UpdateView_fields:
  "mPosition (UpdateView c) = mPosition c"
  "mYaw (UpdateView c) = mYaw c"
  "mPitch (UpdateView c) = mPitch c"
  "mRoll (UpdateView c) = mRoll c"
  "mMoveSpeed (UpdateView c) = mMoveSpeed c"
  "mRotationSpeed (UpdateView c) = mRotationSpeed c"
  "mLastMouseX (UpdateView c) = mLastMouseX c"
  "mLastMouseY (UpdateView c) = mLastMouseY c"
  "mCameraSpecs (UpdateView c) = mCameraSpecs c"
  "mProjection (UpdateView c) = mProjection c"
  by (simp_all add: UpdateView_def Let_def)

subsection \<open>The default-constructed camera\<close>

lemma new_basis:
  "mForwardDirection EditorCamera_new = Vec3 (Fin 0) (Fin 0) (Fin (- 1))"
  "mRightDirection EditorCamera_new = Vec3 (Fin 1) (Fin 0) (Fin 0)"
  "mUpDirection EditorCamera_new = Vec3 (Fin 0) (Fin 1) (Fin 0)"
  by (simp_all add: EditorCamera_new_def UpdateView_def UpdateProjection_def initial_members_def
      Let_def radians_m90 radians_0 normalize_v_def inversesqrt_def)

lemma new_scalars:
  "mPosition EditorCamera_new = Vec3 (Fin 0) (Fin 0) (Fin 5)"
  "mMoveSpeed EditorCamera_new = Fin 5"
  "mYaw EditorCamera_new = Fin (- 90)"
  "mPitch EditorCamera_new = Fin 0"
  "mRotationSpeed EditorCamera_new = Fin (1 / 10)"
  "mLastMouseX EditorCamera_new = Fin 0"
  "mLastMouseY EditorCamera_new = Fin 0"
  by (simp_all add: EditorCamera_new_def UpdateView_fields UpdateProjection_def initial_members_def)

subsection \<open>Movement\<close>

lemma OnUpdate_position:
  "mPosition (OnUpdate deltaTime fl mp rot c) =
     mPosition c + movement_of fl
       (mMoveSpeed c * (Fin (real_of_int (sint deltaTime)) / NanoSecondsTicksInOneSecond)) c"
  by (simp add: OnUpdate_def Let_def UpdateView_fields)

lemma movement_flag_sum:
  "movement_of fl s c = flag_sum fl s c (Vec3 (Fin 0) (Fin 0) (Fin 0)) flag_terms"
  by (simp add: movement_of_def flag_terms_def Let_def)

lemma moved_position: "mPosition moved_camera = Vec3 (Fin 0) (Fin 0) (Fin 0)"
  by (simp add: moved_camera_def OnUpdate_position NanoSecondsTicksInOneSecond_def movement_of_def
      Let_def HasFlag_Forward new_basis new_scalars)

text \<open>
  For every tick count, flag set, mouse position, rotate switch and camera, \<^verbatim>\<open>OnUpdate\<close>
  translates the position by the sum over the active flags of plus or minus the forward,
  right or up direction scaled by the linear speed times the seconds elapsed, where Forward,
  Right and Up add and Backward, Left and Down subtract.
\<close>

lemma OnUpdate_position_flag_sum:
  "mPosition (OnUpdate deltaTime fl mp rot c) =
     mPosition c + flag_sum fl
       (mMoveSpeed c * (Fin (real_of_int (sint deltaTime)) / NanoSecondsTicksInOneSecond)) c
       (Vec3 (Fin 0) (Fin 0) (Fin 0)) flag_terms"
  by (simp add: OnUpdate_position movement_flag_sum)

subsection \<open>Frames\<close>

text \<open>
  Claim C7. For every projection spec and every camera, \<^verbatim>\<open>SetCameraSpec\<close> changes only the
  stored spec and the projection matrix: the view matrix, the position, yaw, pitch and roll,
  the three basis vectors, the two speeds and the last mouse coordinates are unchanged.
\<close>

theorem SetCameraSpec_changes_only_projection:
  "SetCameraSpec specs c =
     c\<lparr>mCameraSpecs := specs, mProjection := mProjection (SetCameraSpec specs c)\<rparr> \<and>
   mCameraSpecs (SetCameraSpec specs c) = specs \<and>
   mView (SetCameraSpec specs c) = mView c \<and>
   mPosition (SetCameraSpec specs c) = mPosition c \<and>
   mYaw (SetCameraSpec specs c) = mYaw c \<and>
   mPitch (SetCameraSpec specs c) = mPitch c \<and>
   mRoll (SetCameraSpec specs c) = mRoll c \<and>
   mForwardDirection (SetCameraSpec specs c) = mForwardDirection c \<and>
   mRightDirection (SetCameraSpec specs c) = mRightDirection c \<and>
   mUpDirection (SetCameraSpec specs c) = mUpDirection c \<and>
   mMoveSpeed (SetCameraSpec specs c) = mMoveSpeed c \<and>
   mRotationSpeed (SetCameraSpec specs c) = mRotationSpeed c \<and>
   mLastMouseX (SetCameraSpec specs c) = mLastMouseX c \<and>
   mLastMouseY (SetCameraSpec specs c) = mLastMouseY c"
  by (simp add: SetCameraSpec_def UpdateProjection_def)

text \<open>
  Claim C8. For every call of \<^verbatim>\<open>OnUpdate\<close> with rotate off, the last mouse coordinates, yaw,
  pitch, roll, the forward, right and up vectors and the view matrix are exactly as before
  the call: the camera after the call is the camera before it with a new position.
\<close>

theorem OnUpdate_no_rotate_frame:
  "OnUpdate deltaTime fl mp False c =
     c\<lparr>mPosition := mPosition (OnUpdate deltaTime fl mp False c)\<rparr> \<and>
   mLastMouseX (OnUpdate deltaTime fl mp False c) = mLastMouseX c \<and>
   mLastMouseY (OnUpdate deltaTime fl mp False c) = mLastMouseY c \<and>
   mYaw (OnUpdate deltaTime fl mp False c) = mYaw c \<and>
   mPitch (OnUpdate deltaTime fl mp False c) = mPitch c \<and>
   mRoll (OnUpdate deltaTime fl mp False c) = mRoll c \<and>
   mForwardDirection (OnUpdate deltaTime fl mp False c) = mForwardDirection c \<and>
   mRightDirection (OnUpdate deltaTime fl mp False c) = mRightDirection c \<and>
   mUpDirection (OnUpdate deltaTime fl mp False c) = mUpDirection c \<and>
   mView (OnUpdate deltaTime fl mp False c) = mView c"
  by (simp add: OnUpdate_def Let_def)

subsection \<open>The view matrix when rotation is off\<close>

lemma UpdateView_view:
  "mView (UpdateView c) =
     lookAt (mPosition (UpdateView c)) (mPosition (UpdateView c) + mForwardDirection (UpdateView c))
       (mUpDirection (UpdateView c))"
  by (simp add: UpdateView_def Let_def)

lemma new_view_of_pose:
  "mView EditorCamera_new =
     lookAt (mPosition EditorCamera_new)
       (mPosition EditorCamera_new + mForwardDirection EditorCamera_new)
       (mUpDirection EditorCamera_new)"
  unfolding EditorCamera_new_def by (rule UpdateView_view)

lemma new_view:
  "mView EditorCamera_new =
     Mat4 (Vec4 (Fin 1) (Fin 0) (Fin 0) (Fin 0)) (Vec4 (Fin 0) (Fin 1) (Fin 0) (Fin 0))
          (Vec4 (Fin 0) (Fin 0) (Fin 1) (Fin 0)) (Vec4 (Fin 0) (Fin 0) (Fin (- 5)) (Fin 1))"
  by (simp add: new_view_of_pose new_basis new_scalars lookAt_def Let_def normalize_v_def
      inversesqrt_def)

lemma moved_view: "mView moved_camera = mView EditorCamera_new"
  by (simp add: moved_camera_def OnUpdate_def Let_def)

text \<open>
  Claim C1 fails as stated. One second of Forward with rotation off moves the
  default-constructed camera away from \<open>(0, 0, 5)\<close>, and the view matrix after the
  call is not the look-at matrix built from the new position and the forward and up vectors
  held before the call: it still carries the translation of the old position.
\<close>

theorem OnUpdate_no_rotate_view_not_of_new_position:
  "mPosition moved_camera \<noteq> mPosition EditorCamera_new \<and>
   mView moved_camera \<noteq>
     lookAt (mPosition moved_camera) (mPosition moved_camera + mForwardDirection EditorCamera_new)
       (mUpDirection EditorCamera_new)"
  by (simp add: moved_view new_view moved_position new_basis new_scalars lookAt_def Let_def
      normalize_v_def inversesqrt_def)

text \<open>
  Claim C1, amended. For every camera whose view matrix is the look-at matrix of its position
  and its forward and up vectors (as it is after every view recompute), after a call of
  \<^verbatim>\<open>OnUpdate\<close> with rotate off the view matrix is the one held before the call, that is the
  look-at matrix built from the position, forward and up vectors held before the call; the
  forward and up vectors are untouched.
\<close>

theorem OnUpdate_no_rotate_view_of_old_position:
  assumes "mView c = lookAt (mPosition c) (mPosition c + mForwardDirection c) (mUpDirection c)"
  shows "mView (OnUpdate deltaTime fl mp False c) = mView c \<and>
    mForwardDirection (OnUpdate deltaTime fl mp False c) = mForwardDirection c \<and>
    mUpDirection (OnUpdate deltaTime fl mp False c) = mUpDirection c \<and>
    mView (OnUpdate deltaTime fl mp False c) =
      lookAt (mPosition c) (mPosition c + mForwardDirection c) (mUpDirection c)"
  using assms by (simp add: OnUpdate_def Let_def)

theorem OnUpdate_no_rotate_view_of_old_position_witness:
  "mView EditorCamera_new =
     lookAt (mPosition EditorCamera_new)
       (mPosition EditorCamera_new + mForwardDirection EditorCamera_new)
       (mUpDirection EditorCamera_new) \<and>
   mView moved_camera =
     lookAt (mPosition EditorCamera_new)
       (mPosition EditorCamera_new + mForwardDirection EditorCamera_new)
       (mUpDirection EditorCamera_new)"
  using OnUpdate_no_rotate_view_of_old_position
      [OF new_view_of_pose, of 1000000000 "FlagsOf Forward" "Vec2 (Fin 0) (Fin 0)"]
    new_view_of_pose
  by (simp add: moved_camera_def)

subsection \<open>The pitch clamp\<close>

lemma OnUpdate_rotate_fields:
  "mPitch (OnUpdate deltaTime fl mp True c) = clamp_pitch (raw_pitch c mp)"
  "mYaw (OnUpdate deltaTime fl mp True c) =
     mYaw c + (v2x mp - mLastMouseX c) * mRotationSpeed c"
  "mLastMouseX (OnUpdate deltaTime fl mp True c) = v2x mp"
  "mLastMouseY (OnUpdate deltaTime fl mp True c) = v2y mp"
  "mRotationSpeed (OnUpdate deltaTime fl mp True c) = mRotationSpeed c"
  by (simp_all add: OnUpdate_def Let_def UpdateView_fields clamp_pitch_def raw_pitch_def)

lemma clamp_pitch_in_range: "is_finite p \<Longrightarrow> pitch_in_range (clamp_pitch p)"
  by (cases p) (simp_all add: clamp_pitch_def pitch_in_range_def)

lemma clamp_pitch_past:
  "Fin 89 < p \<Longrightarrow> clamp_pitch p = Fin 89"
  "p < Fin (- 89) \<Longrightarrow> clamp_pitch p = Fin (- 89)"
  by (cases p; simp add: clamp_pitch_def)+

lemma next_raw_pitch:
  "raw_pitch (OnUpdate deltaTime fl mp True c) mp' =
     mPitch (OnUpdate deltaTime fl mp True c) - (v2y mp' - v2y mp) * mRotationSpeed c"
  by (simp add: raw_pitch_def OnUpdate_rotate_fields)

text \<open>
  Claim C4 fails as stated. The default-constructed camera has pitch 0. One call of
  \<^verbatim>\<open>OnUpdate\<close> with rotate on and a mouse position whose y coordinate is not a number makes the
  pitch NaN: both comparisons of the clamp are false on it, and it is stored as it is, outside
  \<open>[-89, 89]\<close>.
\<close>

theorem OnUpdate_NaN_mouse_pitch_out_of_range:
  "pitch_in_range (mPitch EditorCamera_new) \<and>
   mPitch (OnUpdate 16000000 NoFlags (Vec2 (Fin 0) NaN) True EditorCamera_new) = NaN \<and>
   \<not> pitch_in_range (mPitch (OnUpdate 16000000 NoFlags (Vec2 (Fin 0) NaN) True EditorCamera_new))"
  by (simp add: OnUpdate_rotate_fields raw_pitch_def clamp_pitch_def pitch_in_range_def new_scalars)

text \<open>
  Claim C4, amended. For every camera and every call of \<^verbatim>\<open>OnUpdate\<close> with rotate on, the stored
  pitch is the clamp of the pitch computed from the mouse movement; the pitch computed in the
  next call starts from the stored pitch and the mouse position recorded by this call. The
  clamp of every number \<open>p\<close> lies in \<open>[-89, 89]\<close>; of a number above 89, however far, it is
  89, and of a number below -89 it is -89, so the way back starts at the boundary and cannot
  overshoot it. The clamp of NaN is NaN, which is outside the range.
\<close>

theorem OnUpdate_pitch_clamped:
  "mPitch (OnUpdate dt1 fl1 mp1 True c) = clamp_pitch (raw_pitch c mp1) \<and>
   raw_pitch (OnUpdate dt1 fl1 mp1 True c) mp2 =
     mPitch (OnUpdate dt1 fl1 mp1 True c) - (v2y mp2 - v2y mp1) * mRotationSpeed c \<and>
   (is_finite p \<longrightarrow> pitch_in_range (clamp_pitch p)) \<and>
   (Fin 89 < p \<longrightarrow> clamp_pitch p = Fin 89) \<and>
   (p < Fin (- 89) \<longrightarrow> clamp_pitch p = Fin (- 89)) \<and>
   clamp_pitch NaN = NaN \<and>
   \<not> pitch_in_range NaN"
proof -
  have nan: "clamp_pitch NaN = NaN" "\<not> pitch_in_range NaN"
    by (simp_all add: clamp_pitch_def pitch_in_range_def)
  show ?thesis
    using OnUpdate_rotate_fields(1) [of dt1 fl1 mp1 c] next_raw_pitch [of dt1 fl1 mp1 c mp2]
      clamp_pitch_in_range [of p] clamp_pitch_past [of p] nan
    by blast
qed

text \<open>
  The witness: the default-constructed camera with rotation speed \<open>1/8\<close>, driven far past the
  upper boundary and back by 80 mouse units, and the same at the lower boundary. Every number
  here is a binary32 number and every operation on them is exact.
\<close>

theorem OnUpdate_pitch_clamped_witness:
  "is_finite (Fin 1000) \<and> Fin 89 < Fin 1000 \<and>
   raw_pitch (SetRotationSpeed (Fin (1 / 8)) EditorCamera_new) (Vec2 (Fin 0) (Fin (- 8000))) =
     Fin 1000 \<and>
   pitch_in_range (clamp_pitch (Fin 1000)) \<and>
   mPitch (OnUpdate 16000000 NoFlags (Vec2 (Fin 0) (Fin (- 8000))) True
     (SetRotationSpeed (Fin (1 / 8)) EditorCamera_new)) = Fin 89 \<and>
   mPitch (OnUpdate 16000000 NoFlags (Vec2 (Fin 0) (Fin (- 7920))) True
     (OnUpdate 16000000 NoFlags (Vec2 (Fin 0) (Fin (- 8000))) True
       (SetRotationSpeed (Fin (1 / 8)) EditorCamera_new))) = Fin 79 \<and>
   is_finite (Fin (- 1000)) \<and> Fin (- 1000) < Fin (- 89) \<and>
   raw_pitch (SetRotationSpeed (Fin (1 / 8)) EditorCamera_new) (Vec2 (Fin 0) (Fin 8000)) =
     Fin (- 1000) \<and>
   pitch_in_range (clamp_pitch (Fin (- 1000))) \<and>
   mPitch (OnUpdate 16000000 NoFlags (Vec2 (Fin 0) (Fin 8000)) True
     (SetRotationSpeed (Fin (1 / 8)) EditorCamera_new)) = Fin (- 89) \<and>
   mPitch (OnUpdate 16000000 NoFlags (Vec2 (Fin 0) (Fin 7920)) True
     (OnUpdate 16000000 NoFlags (Vec2 (Fin 0) (Fin 8000)) True
       (SetRotationSpeed (Fin (1 / 8)) EditorCamera_new))) = Fin (- 79)"
proof -
  let ?c = "SetRotationSpeed (Fin (1 / 8)) EditorCamera_new"
  have c: "mPitch ?c = Fin 0" "mLastMouseY ?c = Fin 0" "mRotationSpeed ?c = Fin (1 / 8)"
    by (simp_all add: SetRotationSpeed_def new_scalars)
  have raw_up: "raw_pitch ?c (Vec2 (Fin 0) (Fin (- 8000))) = Fin 1000"
    and raw_down: "raw_pitch ?c (Vec2 (Fin 0) (Fin 8000)) = Fin (- 1000)"
    by (simp_all add: raw_pitch_def c)
  have way_up: "clamp_pitch (Fin 89 - (Fin (- 7920) - Fin (- 8000)) * Fin (1 / 8)) = Fin 79"
    and way_down: "clamp_pitch (Fin (- 89) - (Fin 7920 - Fin 8000) * Fin (1 / 8)) = Fin (- 79)"
    by (simp_all add: clamp_pitch_def)
  note up1 = OnUpdate_pitch_clamped [of 16000000 NoFlags "Vec2 (Fin 0) (Fin (- 8000))" ?c
      "Vec2 (Fin 0) (Fin (- 7920))" "Fin 1000"]
  note up2 = OnUpdate_pitch_clamped [of 16000000 NoFlags "Vec2 (Fin 0) (Fin (- 7920))"
      "OnUpdate 16000000 NoFlags (Vec2 (Fin 0) (Fin (- 8000))) True ?c"]
  note down1 = OnUpdate_pitch_clamped [of 16000000 NoFlags "Vec2 (Fin 0) (Fin 8000)" ?c
      "Vec2 (Fin 0) (Fin 7920)" "Fin (- 1000)"]
  note down2 = OnUpdate_pitch_clamped [of 16000000 NoFlags "Vec2 (Fin 0) (Fin 7920)"
      "OnUpdate 16000000 NoFlags (Vec2 (Fin 0) (Fin 8000)) True ?c"]
  show ?thesis
    using up1 up2 down1 down2 raw_up raw_down way_up way_down
    by (simp add: c)
qed

subsection \<open>The basis after a view recompute\<close>

lemma degrees_values:
  "degrees (Fin (pi / 2)) = Fin 90" "degrees (Fin (- (pi / 2))) = Fin (- 90)"
  "degrees (Fin pi) = Fin 180" "degrees (Fin 0) = Fin 0"
  by (simp_all add: degrees_def)

lemma radians_values:
  "radians (Fin 90) = Fin (pi / 2)" "radians (Fin 180) = Fin pi" "radians (Fin 45) = Fin (pi / 4)"
  by (simp_all add: radians_def)

lemma UpdateView_recomputed: "view_recomputed (UpdateView c)"
  by (simp add: view_recomputed_def UpdateView_def Let_def)

lemma recomputed_ops:
  "view_recomputed EditorCamera_new"
  "view_recomputed (SetPosition position c)"
  "view_recomputed (SetOrientation orientation c)"
  "view_recomputed (OnUpdate deltaTime fl mp True c)"
  by (simp_all add: EditorCamera_new_def SetPosition_def SetOrientation_def OnUpdate_def Let_def
      UpdateView_recomputed)

lemma normalize_finite:
  assumes "a * a + b * b + c * c = n * n" "0 < n"
  shows "normalize_v (Vec3 (Fin a) (Fin b) (Fin c)) = Vec3 (Fin (a / n)) (Fin (b / n)) (Fin (c / n))"
proof -
  have "sqrt (a * a + b * b + c * c) = n"
    using assms by (simp add: real_sqrt_mult_self)
  moreover have "\<not> a * a + b * b + c * c < 0"
    using assms by (simp add: not_less)
  ultimately show ?thesis using assms(2)
    by (simp add: normalize_v_def inversesqrt_def)
qed

lemma unit_algebra:
  fixes cy sy cp sp :: real
  assumes "cy * cy + sy * sy = 1" "cp * cp + sp * sp = 1"
  shows "cy * cp * (cy * cp) + sp * sp + sy * cp * (sy * cp) = 1 * 1"
proof -
  have "cy * cp * (cy * cp) + sp * sp + sy * cp * (sy * cp) =
        cp * cp * (cy * cy + sy * sy) + sp * sp"
    by (simp add: algebra_simps)
  then show ?thesis using assms by simp
qed

text \<open>
  With finite yaw \<open>y\<close> and pitch \<open>p\<close> the forward vector of a view recompute is the unit
  vector of the two angles, in exact arithmetic.
\<close>

lemma recomputed_forward:
  assumes "view_recomputed c" "mYaw c = Fin y" "mPitch c = Fin p"
  shows "mForwardDirection c =
    Vec3 (Fin (cos (y * (pi / 180)) * cos (p * (pi / 180)))) (Fin (sin (p * (pi / 180))))
      (Fin (sin (y * (pi / 180)) * cos (p * (pi / 180))))"
proof -
  have "mForwardDirection c = normalize_v (Vec3 (Fin (cos (y * (pi / 180)) * cos (p * (pi / 180))))
      (Fin (sin (p * (pi / 180)))) (Fin (sin (y * (pi / 180)) * cos (p * (pi / 180)))))"
    using assms by (simp add: view_recomputed_def radians_def)
  also have "\<dots> = Vec3 (Fin (cos (y * (pi / 180)) * cos (p * (pi / 180)) / 1))
      (Fin (sin (p * (pi / 180)) / 1)) (Fin (sin (y * (pi / 180)) * cos (p * (pi / 180)) / 1))"
    by (rule normalize_finite [OF unit_algebra]) (simp_all only: sin_cos_squared_add3 zero_less_one)
  finally show ?thesis by simp
qed

subsection \<open>Setting the orientation\<close>

lemma SetOrientation_angles:
  "mYaw (SetOrientation orientation c) =
     degrees (atan2_f (vx (col2 orientation)) (vz (col2 orientation)))"
  "mPitch (SetOrientation orientation c) = degrees (asin_f (- vy (col2 orientation)))"
  "mRoll (SetOrientation orientation c) =
     degrees (atan2_f (vy (col0 orientation)) (vy (col1 orientation)))"
  by (simp_all add: SetOrientation_def UpdateView_fields)

lemma z_down_angles:
  "mPitch (SetOrientation basis_z_down c) = Fin 90"
  "mYaw (SetOrientation basis_z_down c) = Fin 0"
  by (simp_all add: SetOrientation_angles basis_z_down_def degrees_values atan2_real_def)

lemma z_up_angles:
  "mPitch (SetOrientation basis_z_up c) = Fin (- 90)"
  "mYaw (SetOrientation basis_z_up c) = Fin 0"
  by (simp_all add: SetOrientation_angles basis_z_up_def degrees_values atan2_real_def)

lemma NaN_absorbs:
  "a * NaN = NaN" "NaN * a = NaN" "a + NaN = NaN" "NaN + a = NaN" "a - NaN = NaN" "NaN - a = NaN"
  for a :: flt
  by (cases a; simp)+

lemma recomputed_NaN_pitch:
  assumes "view_recomputed c" "mPitch c = NaN"
  shows "mForwardDirection c = Vec3 NaN NaN NaN \<and> mRightDirection c = Vec3 NaN NaN NaN \<and>
    mUpDirection c = Vec3 NaN NaN NaN"
proof -
  have vr: "mForwardDirection c = normalize_v (Vec3
        (cos_f (radians (mYaw c)) * cos_f (radians (mPitch c)))
        (sin_f (radians (mPitch c)))
        (sin_f (radians (mYaw c)) * cos_f (radians (mPitch c))))"
    "mRightDirection c = normalize_v (cross (mForwardDirection c) (Vec3 (Fin 0) (Fin 1) (Fin 0)))"
    "mUpDirection c = normalize_v (cross (mRightDirection c) (mForwardDirection c))"
    using assms(1) by (simp_all add: view_recomputed_def)
  have f: "mForwardDirection c = Vec3 NaN NaN NaN"
    by (subst vr(1)) (simp add: assms(2) radians_def normalize_v_def inversesqrt_def NaN_absorbs)
  have r: "mRightDirection c = Vec3 NaN NaN NaN"
    by (subst vr(2)) (simp add: f normalize_v_def inversesqrt_def)
  have u: "mUpDirection c = Vec3 NaN NaN NaN"
    by (subst vr(3)) (simp add: f r normalize_v_def inversesqrt_def)
  show ?thesis using f r u by simp
qed

lemma long_column_pitch:
  "mPitch (SetOrientation basis_scaled c) = NaN"
  "mPitch (SetOrientation basis_long c) = NaN"
  by (simp_all add: SetOrientation_angles basis_scaled_def basis_long_def degrees_def)

text \<open>
  Claim C3, at inputs where the code breaks it. \<^verbatim>\<open>SetOrientation\<close> normalises the three
  columns it stores, but it takes the arcsine of the raw y entry of the z column. For the basis
  \<open>basis_scaled\<close>, whose columns are orthogonal and of length two, and for \<open>basis_long\<close>, whose
  z column is one float step longer than a unit vector, the argument of the arcsine is
  greater than one and the stored pitch is NaN. No clamp catches it, the view recompute
  derives forward, right and up from it, all three are NaN in every component, and the basis
  is not orthonormal.
\<close>

theorem SetOrientation_long_column_not_orthonormal:
  "mPitch (SetOrientation basis_scaled c) = NaN \<and>
   mForwardDirection (SetOrientation basis_scaled c) = Vec3 NaN NaN NaN \<and>
   mRightDirection (SetOrientation basis_scaled c) = Vec3 NaN NaN NaN \<and>
   mUpDirection (SetOrientation basis_scaled c) = Vec3 NaN NaN NaN \<and>
   \<not> orthonormal (SetOrientation basis_scaled c) \<and>
   mPitch (SetOrientation basis_long c) = NaN \<and>
   mForwardDirection (SetOrientation basis_long c) = Vec3 NaN NaN NaN \<and>
   mRightDirection (SetOrientation basis_long c) = Vec3 NaN NaN NaN \<and>
   mUpDirection (SetOrientation basis_long c) = Vec3 NaN NaN NaN \<and>
   \<not> orthonormal (SetOrientation basis_long c)"
proof -
  note scaled = recomputed_NaN_pitch [OF recomputed_ops(3) long_column_pitch(1), of c]
  note long = recomputed_NaN_pitch [OF recomputed_ops(3) long_column_pitch(2), of c]
  have "\<not> orthonormal (SetOrientation basis_scaled c)" "\<not> orthonormal (SetOrientation basis_long c)"
    using scaled long by (simp_all add: orthonormal_def)
  then show ?thesis
    using scaled long long_column_pitch by simp
qed

text \<open>
  Claim C10. \<^verbatim>\<open>SetOrientation\<close> stores the pitch \<open>degrees (asin (- zAxis.y))\<close> as it is: for
  the bases with z column \<open>(0, -1, 0)\<close> and \<open>(0, 1, 0)\<close> the stored pitch is exactly 90 and
  -90, outside \<open>[-89, 89]\<close>. The rotating \<^verbatim>\<open>OnUpdate\<close> stores the clamped pitch, and every
  other operation leaves the pitch as it was.
\<close>

theorem SetOrientation_stores_unclamped_pitch:
  "mPitch (SetOrientation orientation c) = degrees (asin_f (- vy (col2 orientation))) \<and>
   mPitch (SetOrientation basis_z_down c) = Fin 90 \<and>
   \<not> pitch_in_range (mPitch (SetOrientation basis_z_down c)) \<and>
   mPitch (SetOrientation basis_z_up c) = Fin (- 90) \<and>
   \<not> pitch_in_range (mPitch (SetOrientation basis_z_up c)) \<and>
   mPitch (OnUpdate deltaTime fl mp True c) = clamp_pitch (raw_pitch c mp) \<and>
   mPitch (OnUpdate deltaTime fl mp False c) = mPitch c \<and>
   mPitch (SetPosition position c) = mPitch c \<and>
   mPitch (SetCameraSpec specs c) = mPitch c \<and>
   mPitch (SetLinearSpeed speed c) = mPitch c \<and>
   mPitch (SetRotationSpeed speed c) = mPitch c"
proof -
  have down: "\<not> pitch_in_range (mPitch (SetOrientation basis_z_down c))"
    and up: "\<not> pitch_in_range (mPitch (SetOrientation basis_z_up c))"
    by (simp_all add: z_down_angles z_up_angles pitch_in_range_def)
  have others: "mPitch (OnUpdate deltaTime fl mp False c) = mPitch c"
    "mPitch (SetPosition position c) = mPitch c"
    "mPitch (SetCameraSpec specs c) = mPitch c"
    "mPitch (SetLinearSpeed speed c) = mPitch c"
    "mPitch (SetRotationSpeed speed c) = mPitch c"
    by (simp_all add: OnUpdate_def Let_def SetPosition_def UpdateView_fields SetCameraSpec_def
        UpdateProjection_def SetLinearSpeed_def SetRotationSpeed_def)
  show ?thesis
    by (intro conjI)
       (rule SetOrientation_angles(2) z_down_angles(1) z_up_angles(1) down up
          OnUpdate_rotate_fields(1) others)+
qed

lemma new_basis_of:
  "basis_of EditorCamera_new =
     Mat3 (Vec3 (Fin 1) (Fin 0) (Fin 0)) (Vec3 (Fin 0) (Fin 1) (Fin 0))
       (Vec3 (Fin 0) (Fin 0) (Fin (- 1)))"
  by (simp add: basis_of_def new_basis)

lemma own_basis_angles:
  "mYaw (SetOrientation (basis_of EditorCamera_new) c) = Fin 180"
  "mPitch (SetOrientation (basis_of EditorCamera_new) c) = Fin 0"
  by (simp_all add: SetOrientation_angles new_basis_of atan2_real_def degrees_values)

text \<open>
  Claim C9, at the input where the code breaks it. The default-constructed camera has yaw
  -90 and pitch 0, and its basis is the one the view recompute derives from them. Handing this
  basis to \<^verbatim>\<open>SetOrientation\<close> stores yaw 180, not -90, and the view recompute that follows
  turns the forward vector from \<open>(0, 0, -1)\<close> to \<open>(-1, 0, 0)\<close>.
\<close>

theorem SetOrientation_own_basis_not_recovered:
  "view_recomputed EditorCamera_new \<and>
   mYaw EditorCamera_new = Fin (- 90) \<and>
   mPitch EditorCamera_new = Fin 0 \<and>
   basis_of EditorCamera_new =
     Mat3 (Vec3 (Fin 1) (Fin 0) (Fin 0)) (Vec3 (Fin 0) (Fin 1) (Fin 0))
       (Vec3 (Fin 0) (Fin 0) (Fin (- 1))) \<and>
   mYaw (SetOrientation (basis_of EditorCamera_new) EditorCamera_new) = Fin 180 \<and>
   mPitch (SetOrientation (basis_of EditorCamera_new) EditorCamera_new) = Fin 0 \<and>
   mForwardDirection EditorCamera_new = Vec3 (Fin 0) (Fin 0) (Fin (- 1)) \<and>
   mForwardDirection (SetOrientation (basis_of EditorCamera_new) EditorCamera_new) =
     Vec3 (Fin (- 1)) (Fin 0) (Fin 0)"
proof -
  have "mForwardDirection (SetOrientation (basis_of EditorCamera_new) EditorCamera_new) =
      Vec3 (Fin (- 1)) (Fin 0) (Fin 0)"
    using recomputed_forward [OF recomputed_ops(3) own_basis_angles, of EditorCamera_new]
    by simp
  then show ?thesis
    by (intro conjI)
       (rule recomputed_ops(1) new_scalars(3,4) new_basis_of own_basis_angles new_basis(1))+
qed

text \<open>
  The same defect away from this input: when the y entry of the z column is the sine of a
  pitch \<open>p\<close> between -90 and 90 degrees, as in the forward vector of the view recompute, the
  stored pitch is \<open>- p\<close>.
\<close>

lemma SetOrientation_negates_pitch:
  assumes "- 90 \<le> p" "p \<le> 90" "vy (col2 orientation) = sin_f (radians (Fin p))"
  shows "mPitch (SetOrientation orientation c) = Fin (- p)"
proof -
  have "p * (pi / 180) \<le> 90 * (pi / 180)"
    using assms(2) by (intro mult_right_mono) simp_all
  moreover have "(- 90) * (pi / 180) \<le> p * (pi / 180)"
    using assms(1) by (intro mult_right_mono) simp_all
  ultimately have bounds: "- (pi / 2) \<le> p * (pi / 180)" "p * (pi / 180) \<le> pi / 2"
    by simp_all
  have "arcsin (- sin (p * (pi / 180))) = - (p * (pi / 180))"
    using bounds by (simp add: arcsin_minus arcsin_sin)
  then show ?thesis
    by (simp add: SetOrientation_angles assms(3) radians_def degrees_def)
qed

text \<open>
  The part of claim C9 that holds: the view recompute reads yaw, pitch and position only, so
  two bases with the same z column give the same basis vectors and view matrix, whatever
  their roll, and the stored roll does not reach the view.
\<close>

lemma recomputed_determined:
  assumes "view_recomputed a" "view_recomputed b" "mYaw a = mYaw b" "mPitch a = mPitch b"
    "mPosition a = mPosition b"
  shows "mForwardDirection a = mForwardDirection b \<and> mRightDirection a = mRightDirection b \<and>
    mUpDirection a = mUpDirection b \<and> mView a = mView b"
proof -
  have f: "mForwardDirection a = mForwardDirection b"
    using assms by (simp add: view_recomputed_def)
  then have r: "mRightDirection a = mRightDirection b"
    using assms(1,2) by (simp add: view_recomputed_def)
  then have u: "mUpDirection a = mUpDirection b"
    using assms(1,2) f by (simp add: view_recomputed_def)
  then have "mView a = mView b"
    using assms(1,2,5) f by (simp add: view_recomputed_def)
  then show ?thesis using f r u by simp
qed

lemma SetOrientation_roll_discarded:
  assumes "col2 orientation = col2 orientation'"
  shows "mForwardDirection (SetOrientation orientation c) =
      mForwardDirection (SetOrientation orientation' c) \<and>
    mRightDirection (SetOrientation orientation c) =
      mRightDirection (SetOrientation orientation' c) \<and>
    mUpDirection (SetOrientation orientation c) = mUpDirection (SetOrientation orientation' c) \<and>
    mView (SetOrientation orientation c) = mView (SetOrientation orientation' c)"
  by (rule recomputed_determined [OF recomputed_ops(3) recomputed_ops(3)])
     (simp_all add: SetOrientation_angles assms, simp add: SetOrientation_def UpdateView_fields)

subsection \<open>The projection\<close>

lemma half_angles:
  "0 < pi * pi / 1440" "pi * pi / 1440 < pi / 8" "pi / 8 < pi / 2" "0 < pi / 8"
proof -
  show "0 < pi * pi / 1440" by simp
  have "pi * pi < pi * 180" using pi_less_4 pi_gt_zero by (intro mult_strict_left_mono) auto
  then show "pi * pi / 1440 < pi / 8" by simp
  show "pi / 8 < pi / 2" by simp
  show "0 < pi / 8" by simp
qed

lemma tan_half_angles:
  "cos (pi * pi / 1440) \<noteq> 0" "cos (pi / 8) \<noteq> 0"
  "0 < tan (pi * pi / 1440)" "0 < tan (pi / 8)" "tan (pi * pi / 1440) < tan (pi / 8)"
proof -
  have a: "0 < pi * pi / 1440" "pi * pi / 1440 < pi / 2" using half_angles by linarith+
  have b: "0 < pi / 8" "pi / 8 < pi / 2" by simp_all
  show "cos (pi * pi / 1440) \<noteq> 0" using cos_gt_zero [OF a] by simp
  show "cos (pi / 8) \<noteq> 0" using cos_gt_zero [OF b] by simp
  show "0 < tan (pi * pi / 1440)" by (rule tan_gt_zero [OF a])
  show "0 < tan (pi / 8)" by (rule tan_gt_zero [OF b])
  show "tan (pi * pi / 1440) < tan (pi / 8)"
    using a b half_angles by (intro tan_monotone) linarith+
qed

lemma tan_f_values:
  "tan_f (radians (radians (Fin 45)) / Fin 2) = Fin (tan (pi * pi / 1440))"
  "tan_f (radians (Fin 45) / Fin 2) = Fin (tan (pi / 8))"
  using tan_half_angles by (simp_all add: radians_def)

text \<open>
  Claim C2, at the input where the code breaks it. The default spec holds the field of view
  already in radians, \<open>\<pi> / 4\<close>. \<^verbatim>\<open>UpdateProjection\<close> converts it from degrees to radians once
  more, so \<^verbatim>\<open>SetCameraSpec\<close> stores the frustum of the field of view \<open>\<pi>\<^sup>2 / 720\<close>, which is not
  the frustum of the supplied field of view.
\<close>

theorem SetCameraSpec_converts_fov_twice:
  "Fov default_specs = Fin (pi / 4) \<and>
   radians (Fov default_specs) = Fin (pi * pi / 720) \<and>
   mProjection (SetCameraSpec default_specs c) =
     perspective (radians (Fov default_specs)) (AspectRatio default_specs)
       (NearClip default_specs) (FarClip default_specs) \<and>
   mProjection (SetCameraSpec default_specs c) \<noteq>
     perspective (Fov default_specs) (AspectRatio default_specs)
       (NearClip default_specs) (FarClip default_specs)"
proof -
  have fov: "Fov default_specs = Fin (pi / 4)" "radians (Fov default_specs) = Fin (pi * pi / 720)"
    by (simp_all add: default_specs_def radians_def)
  have "mProjection (SetCameraSpec default_specs c) \<noteq>
     perspective (Fov default_specs) (AspectRatio default_specs)
       (NearClip default_specs) (FarClip default_specs)"
    using tan_half_angles
    by (simp add: SetCameraSpec_def UpdateProjection_def default_specs_def perspective_def Let_def
        tan_f_values)
  then show ?thesis
    using fov by (simp add: SetCameraSpec_def UpdateProjection_def)
qed

end
